theory Spec2Isabelle
  imports Complex_Main "HOL-Library.AList" "HOL-Library.Multiset"
begin

section \<open>Python values, dictionaries and exceptions\<close>

text \<open>
  The exceptions that the modelled methods can raise. \<open>ValueError\<close> is raised by the
  frame-rate setter, \<open>KeyError\<close> by a subscript or \<^verbatim>\<open>del\<close> on a missing key,
  \<open>AttributeError\<close> by the use of an attribute that \<^verbatim>\<open>__init__\<close> did not create;
  \<open>TypeError\<close> and \<open>OverflowError\<close> are what the conversion of a value to a float array
  raises for a value that is no number, or for an integer beyond the range of the
  floats.
\<close>

datatype error = ValueError | KeyError | AttributeError | TypeError | OverflowError

text \<open>
  A Python \<^verbatim>\<open>dict\<close> keeps its keys in insertion order and holds each key once.  It is
  modelled as an association list: \<^verbatim>\<open>d[k]\<close> is \<^const>\<open>map_of\<close> (a missing key is
  \<open>None\<close>, which the caller turns into \<open>KeyError\<close>), \<^verbatim>\<open>d[k] = v\<close> is
  \<^const>\<open>AList.update\<close> (an existing key keeps its place, a new key goes to the end),
  \<^verbatim>\<open>del d[k]\<close> and \<^verbatim>\<open>d.pop(k, default)\<close> are \<^const>\<open>AList.delete\<close>, and
  \<^verbatim>\<open>d.values()\<close> is \<open>map snd\<close>.

  The values that are stored in the robot record are numbers, or again dictionaries.
  Python ints and floats are both represented by their value as a real number; the
  modelled code only stores and returns them.
\<close>

datatype pyval = PyNum real | PyDict "(string \<times> pyval) list"

type_synonym pydict = "(string \<times> pyval) list"

text \<open>
  A method that mutates its object and may raise returns either \<open>Inr\<close> of the new
  state, or \<open>Inl\<close> of the exception together with the state the object is in when the
  exception leaves the method (what was assigned before the \<^verbatim>\<open>raise\<close> stays assigned).
\<close>

type_synonym 's raises = "(error \<times> 's) + 's"

definition final_state :: "'s raises \<Rightarrow> 's" where
  "final_state r = (case r of Inl (e, s) \<Rightarrow> s | Inr s \<Rightarrow> s)"

section \<open>The window (graphics/window.py)\<close>

text \<open>
  Modelled from the spec: the event-type constants of \<^verbatim>\<open>commander/window.py\<close> and
  \<^verbatim>\<open>simulation/window.py\<close> are missing from the source files.  The spec names the
  events: keyboard shortcuts that toggle the placement mode of an entity or nudge a
  motor, and mouse clicks that commit a placement.  Each constant is a tag of its
  name; \<open>QUIT\<close> is the toolkit's constant, and \<open>OTHER_EVENT\<close> stands for every other
  event type of the toolkit.
\<close>

datatype event_type =
    QUIT
  | MOUSE_CLICK
  | CREATOR_PLACE_ROBOT
  | CREATOR_PLACE_GOAL
  | MANUAL_LEFT_INCREASE
  | MANUAL_LEFT_DECREASE
  | MANUAL_RIGHT_INCREASE
  | MANUAL_RIGHT_DECREASE
  | MANUAL_BOTH_INCREASE
  | OTHER_EVENT int

text \<open>
  The fields of \<^verbatim>\<open>BaseWindow\<close>.  The toolkit objects (screen, font, clock) are left
  out.  \<open>'f\<close> is the type of the registered callback functions, \<open>'s\<close> the type of the
  sprite objects; \<open>sprites\<close> is the dictionary \<^verbatim>\<open>_sprites\<close> from a name to the pair
  \<^verbatim>\<open>(zindex, sprite)\<close>, \<open>sprite_list\<close> is \<^verbatim>\<open>_sprite_list\<close>.
\<close>

record ('f, 's) base_window =
  width :: int
  height :: int
  window_size :: "int \<times> int"
  draw_area :: "int \<times> int"
  flags :: int
  frame_rate :: int
  running :: bool
  callbacks :: "(event_type \<times> 'f) list"
  sprites :: "(string \<times> (int \<times> 's)) list"
  sprite_list :: "(int \<times> 's) list"

text \<open>\<^verbatim>\<open>BaseWindow.__init__\<close>: a missing draw area defaults to the window size.\<close>

definition BaseWindow_init ::
  "int \<times> int \<Rightarrow> (int \<times> int) option \<Rightarrow> int \<Rightarrow> int \<Rightarrow> ('f, 's) base_window" where
  "BaseWindow_init wsize area rate fl =
     \<lparr> width = fst wsize, height = snd wsize, window_size = wsize,
       draw_area = (case area of None \<Rightarrow> wsize | Some a \<Rightarrow> a),
       flags = fl, frame_rate = rate, running = False,
       callbacks = [], sprites = [], sprite_list = [] \<rparr>"

definition get_window_size :: "('f, 's) base_window \<Rightarrow> int \<times> int" where
  "get_window_size w = window_size w"

text \<open>The setter of the property \<^verbatim>\<open>frame_rate\<close>; the getter is the field itself.\<close>

definition frame_rate_setter ::
  "int \<Rightarrow> ('f, 's) base_window \<Rightarrow> error + ('f, 's) base_window" where
  "frame_rate_setter rate w =
     (if rate < 1 \<or> rate > 60 then Inl ValueError
      else Inr (w\<lparr>frame_rate := rate\<rparr>))"

text \<open>
  \<^verbatim>\<open>list.sort(key=comp, reverse=True)\<close> sorts by descending key and is stable:
  elements with equal keys keep their order.  This is what reversing the list,
  sorting it stably by ascending key and reversing the result gives.
\<close>

definition sort_reverse :: "('a \<Rightarrow> int) \<Rightarrow> 'a list \<Rightarrow> 'a list" where
  "sort_reverse key xs = rev (sort_key key (rev xs))"

definition update_sprite_list :: "('f, 's) base_window \<Rightarrow> ('f, 's) base_window" where
  "update_sprite_list w = w\<lparr>sprite_list := sort_reverse fst (map snd (sprites w))\<rparr>"

definition add_sprite ::
  "string \<Rightarrow> 's \<Rightarrow> int \<Rightarrow> ('f, 's) base_window \<Rightarrow> ('f, 's) base_window" where
  "add_sprite name sprite zindex w =
     update_sprite_list (w\<lparr>sprites := AList.update name (zindex, sprite) (sprites w)\<rparr>)"

text \<open>\<^verbatim>\<open>self._sprites.pop(name, "")\<close> has a default, so a missing name is no error.\<close>

definition remove_sprite :: "string \<Rightarrow> ('f, 's) base_window \<Rightarrow> ('f, 's) base_window" where
  "remove_sprite name w =
     update_sprite_list (w\<lparr>sprites := AList.delete name (sprites w)\<rparr>)"

definition on_callback ::
  "event_type \<Rightarrow> 'f \<Rightarrow> ('f, 's) base_window \<Rightarrow> ('f, 's) base_window" where
  "on_callback type func w = w\<lparr>callbacks := AList.update type func (callbacks w)\<rparr>"

text \<open>\<^verbatim>\<open>del self._callbacks[type]\<close> raises \<open>KeyError\<close> on a missing key.\<close>

definition remove_callback ::
  "event_type \<Rightarrow> ('f, 's) base_window \<Rightarrow> error + ('f, 's) base_window" where
  "remove_callback type w =
     (case map_of (callbacks w) type of
        None \<Rightarrow> Inl KeyError
      | Some func \<Rightarrow> Inr (w\<lparr>callbacks := AList.delete type (callbacks w)\<rparr>))"

text \<open>
  \<^verbatim>\<open>BaseWindow.event\<close>, for an event of the given type.  The result is the new window
  and the list of the callbacks that the method calls, in order; what a callback does
  is up to its owner.
\<close>

definition event :: "event_type \<Rightarrow> ('f, 's) base_window \<Rightarrow> ('f, 's) base_window \<times> 'f list" where
  "event type w =
     (if type = QUIT then
        (w\<lparr>running := False\<rparr>,
         (case map_of (callbacks w) QUIT of None \<Rightarrow> [] | Some func \<Rightarrow> [func]))
      else (w, []))"

text \<open>
  The drawing step of one iteration of the loop in \<^verbatim>\<open>BaseWindow.start\<close>:
  \<^verbatim>\<open>for _, sprite in self._sprite_list: sprite.draw()\<close>.  The result is the list of
  the sprites on which \<^verbatim>\<open>draw\<close> is called, in order.
\<close>

definition draw_sprites :: "('f, 's) base_window \<Rightarrow> 's list" where
  "draw_sprites w = map snd (sprite_list w)"

section \<open>The sprites of the robot controller\<close>

text \<open>
  Modelled from the spec: the sprite classes (\<^verbatim>\<open>graphics/objects/robot.py\<close>,
  \<^verbatim>\<open>graphics/objects/sprite.py\<close>) are missing from the source files.  The spec
  describes a sprite as ``a visual entity drawn each frame at a position/orientation''
  and the robot record as \<open>{x, y, direction}\<close>, stored ``with no validation'': the robot
  sprite holds a position and a direction.
\<close>

record robot_sprite =
  sprite_x :: pyval
  sprite_y :: pyval
  sprite_direction :: pyval

text \<open>
  Modelled from the spec: \<^verbatim>\<open>Sprite.set_position\<close> is missing from the source files; the
  controller ``writes the click position into the marker'', so the setter stores the
  position it is given.
\<close>

definition set_position :: "pyval \<times> pyval \<Rightarrow> robot_sprite \<Rightarrow> robot_sprite" where
  "set_position pos s = s\<lparr>sprite_x := fst pos, sprite_y := snd pos\<rparr>"

text \<open>
  Modelled from the spec: \<^verbatim>\<open>Sprite.get_position\<close> is missing from the source files; it
  returns the position at which the sprite is drawn, as a pair.
\<close>

definition get_position :: "robot_sprite \<Rightarrow> pyval \<times> pyval" where
  "get_position s = (sprite_x s, sprite_y s)"

text \<open>
  Modelled from the spec: \<^verbatim>\<open>Robot.set_direction\<close> is missing from the source files; it
  stores the orientation of the sprite.
\<close>

definition set_direction :: "pyval \<Rightarrow> robot_sprite \<Rightarrow> robot_sprite" where
  "set_direction dir s = s\<lparr>sprite_direction := dir\<rparr>"

text \<open>
  Modelled from the spec: \<^verbatim>\<open>Robot.get_direction\<close> is missing from the source files; it
  returns the orientation of the sprite.
\<close>

definition get_direction :: "robot_sprite \<Rightarrow> pyval" where
  "get_direction s = sprite_direction s"

text \<open>
  Modelled from the spec: the text sprite (\<^verbatim>\<open>graphics/objects/text.py\<close>) and the
  colour constants \<^verbatim>\<open>SHORTCUT_TEXT_COLOR\<close> and \<^verbatim>\<open>SHORTCUT_TEXT_COLOR_ACTIVE\<close> of the
  packages \<^verbatim>\<open>commander\<close> and \<^verbatim>\<open>simulation\<close> are missing from the source files.  The
  shortcut text has a position and a colour, its ``visual state''.  Each colour
  constant is a tag of its name.
\<close>

datatype text_color = SHORTCUT_TEXT_COLOR | SHORTCUT_TEXT_COLOR_ACTIVE

record text_sprite =
  text_position :: "int \<times> int"
  text_color :: text_color

text \<open>
  Modelled from the spec: \<^verbatim>\<open>Text.set_color\<close> is missing from the source files; it stores
  the colour in which the text is drawn.
\<close>

definition set_color :: "text_color \<Rightarrow> text_sprite \<Rightarrow> text_sprite" where
  "set_color col t = t\<lparr>text_color := col\<rparr>"

section \<open>The robot controller (sub\_controller/robot\_controller.py)\<close>

text \<open>
  Modelled from the spec: the application-mode constants \<^verbatim>\<open>CREATOR\<close> and
  \<^verbatim>\<open>MANUAL\<close> of the packages \<^verbatim>\<open>commander\<close> and \<^verbatim>\<open>simulation\<close> are missing from the
  source files.  The spec has a mode for ``placing'' the robot and one for ``manually
  driving'' it.  Each constant is a tag of its name; \<open>OTHER_MODE\<close> stands for every
  other value of \<^verbatim>\<open>app_mode\<close>.
\<close>

datatype app_mode = CREATOR | MANUAL | OTHER_MODE int

text \<open>
  The functions that the controllers register at the window are bound methods and
  closures of the controller; the window only stores them.  They are represented by
  tags: \<open>Toggle\<close> is \<^verbatim>\<open>self.toggle\<close>, \<open>OnMouseClick\<close> is \<^verbatim>\<open>self._on_mouse_click\<close>,
  \<open>MotorLeft n\<close> is \<^verbatim>\<open>self._motor_left(n)\<close>, and so on.  In the same way the window's
  sprite table refers to the sprite objects that the controller holds.
\<close>

datatype handler = Toggle | OnMouseClick | MotorLeft int | MotorRight int | MotorsBoth int int

datatype sprite_ref = SpriteRobot | TextRobot | TextGoal

type_synonym window = "(handler, sprite_ref) base_window"

definition ROBOT_SIZE :: int where
  "ROBOT_SIZE = 50"

text \<open>
  The state of \<^verbatim>\<open>simulation.sub_controller.RobotController\<close>.  \<open>sprite_robot\<close> is
  the robot sprite (the attribute \<^verbatim>\<open>_robot\<close> there, \<^verbatim>\<open>_sprite_robot\<close> in the package
  \<^verbatim>\<open>commander\<close>).  \<open>text_robot\<close> is the attribute \<^verbatim>\<open>_text_robot\<close>, which
  \<^verbatim>\<open>__init__\<close> creates in \<open>CREATOR\<close> mode only: \<open>None\<close> is the attribute that does not
  exist.  \<open>toggled\<close> is the flag \<^verbatim>\<open>_toggled\<close> of the base class.
\<close>

record robot_controller =
  window :: window
  app_mode :: app_mode
  dict_name :: string
  toggled :: bool
  sprite_robot :: robot_sprite
  text_robot :: "text_sprite option"

text \<open>
  Modelled from the spec: the simulated robot of \<^verbatim>\<open>motion_model/robot.py\<close>, ``a thin
  kinematic robot model'', is missing from the source files.  The controller of the
  package \<^verbatim>\<open>commander\<close> constructs it from a float array of the position and the
  robot's size, which is all that is kept of it.
\<close>

record sim_robot =
  sim_position :: "real \<times> real"
  sim_size :: int

text \<open>
  The state of \<^verbatim>\<open>commander.sub_controller.RobotController\<close>: the same fields, and
  the simulated robot \<^verbatim>\<open>_robot\<close>.  The methods \<^verbatim>\<open>toggle\<close>, \<^verbatim>\<open>_on_mouse_click\<close> and
  \<^verbatim>\<open>to_dict\<close> have the same text in both packages, so each is defined once, for both
  records.
\<close>

record cmd_robot_controller = robot_controller +
  robot :: sim_robot

text \<open>
  Modelled from the spec: the base class \<^verbatim>\<open>BaseSubController\<close>
  (\<^verbatim>\<open>graphics/sub_controller.py\<close>) is missing from the source files.  The spec calls
  \<^verbatim>\<open>toggle\<close> ``toggling placement mode'' and toggle mode ``a controller state in which
  the next mouse click commits a new position'': \<^verbatim>\<open>toggle\<close> of the base class
  inverts the flag, which starts as \<open>False\<close>.  With \<^verbatim>\<open>call\<close> it also runs a callback
  that the owner of the controller registered; what that callback does is up to the
  owner and is not part of the controller's state.
\<close>

definition base_toggle ::
  "bool \<Rightarrow> 'z robot_controller_scheme \<Rightarrow> 'z robot_controller_scheme" where
  "base_toggle call c = c\<lparr>toggled := \<not> toggled c\<rparr>"

text \<open>
  Modelled from the spec: \<^verbatim>\<open>BaseSubController.is_toggled\<close> is missing from the source
  files; it tells whether the controller is in toggle mode.
\<close>

definition is_toggled :: "'z robot_controller_scheme \<Rightarrow> bool" where
  "is_toggled c = toggled c"

text \<open>
  \<^verbatim>\<open>self._text_robot.set_color(col)\<close>: an \<open>AttributeError\<close> where the attribute does
  not exist.
\<close>

definition text_robot_set_color ::
  "text_color \<Rightarrow> 'z robot_controller_scheme \<Rightarrow> 'z robot_controller_scheme raises" where
  "text_robot_set_color col c =
     (case text_robot c of
        None \<Rightarrow> Inl (AttributeError, c)
      | Some t \<Rightarrow> Inr (c\<lparr>text_robot := Some (set_color col t)\<rparr>))"

definition toggle ::
  "bool \<Rightarrow> 'z robot_controller_scheme \<Rightarrow> 'z robot_controller_scheme raises" where
  "toggle call c =
     (let c1 = base_toggle call c in
      if toggled c1 then
        text_robot_set_color SHORTCUT_TEXT_COLOR_ACTIVE
          (c1\<lparr>window := on_callback MOUSE_CLICK OnMouseClick (window c1)\<rparr>)
      else
        (case remove_callback MOUSE_CLICK (window c1) of
           Inl e \<Rightarrow> Inl (e, c1)
         | Inr w \<Rightarrow> text_robot_set_color SHORTCUT_TEXT_COLOR (c1\<lparr>window := w\<rparr>)))"

definition on_mouse_click ::
  "pyval \<times> pyval \<Rightarrow> 'z robot_controller_scheme \<Rightarrow> 'z robot_controller_scheme raises" where
  "on_mouse_click pos c =
     toggle True (c\<lparr>sprite_robot := set_position pos (sprite_robot c)\<rparr>)"

definition to_dict :: "'z robot_controller_scheme \<Rightarrow> pydict" where
  "to_dict c =
     (let (x, y) = get_position (sprite_robot c) in
      [(''robot'',
        PyDict [(''x'', x), (''y'', y), (''direction'', get_direction (sprite_robot c))])])"

text \<open>
  \<^verbatim>\<open>from_dict\<close> of the package \<^verbatim>\<open>simulation\<close>.  The three subscripts are evaluated
  before the sprite is touched.
\<close>

definition from_dict ::
  "pydict \<Rightarrow> 'z robot_controller_scheme \<Rightarrow> 'z robot_controller_scheme raises" where
  "from_dict d c =
     (case map_of d ''x'' of
        None \<Rightarrow> Inl (KeyError, c)
      | Some vx \<Rightarrow>
          (case map_of d ''y'' of
             None \<Rightarrow> Inl (KeyError, c)
           | Some vy \<Rightarrow>
               (case map_of d ''direction'' of
                  None \<Rightarrow> Inl (KeyError, c)
                | Some dir \<Rightarrow>
                    Inr (c\<lparr>sprite_robot :=
                              set_direction dir (set_position (vx, vy) (sprite_robot c))\<rparr>))))"

text \<open>
  Modelled from the spec: the constructor of the simulated robot is missing from the
  source files; it keeps the position and the size it is given.
\<close>

definition SimRobot :: "real \<times> real \<Rightarrow> int \<Rightarrow> sim_robot" where
  "SimRobot pos rsize = \<lparr> sim_position = pos, sim_size = rsize \<rparr>"

text \<open>
  \<^verbatim>\<open>from_dict\<close> of the package \<^verbatim>\<open>commander\<close>: the same statements, and then a new
  simulated robot at the position.  The subscripts \<^verbatim>\<open>d["x"]\<close> and \<^verbatim>\<open>d["y"]\<close> of the
  last statement have succeeded before.  The array
  \<^verbatim>\<open>np.array([d["x"], d["y"]], dtype=float)\<close> is computed by the numerical library in
  floating point: it rounds a number to the nearest float and raises for a value
  that it cannot convert.  Its outcome for the call at hand is the argument
  \<open>float_array\<close>: \<open>Inl\<close> of the exception that the conversion raises, or \<open>Inr\<close> of the
  two floats.
\<close>

definition cmd_from_dict ::
  "error + (real \<times> real) \<Rightarrow> pydict \<Rightarrow> 'z cmd_robot_controller_scheme \<Rightarrow>
     'z cmd_robot_controller_scheme raises" where
  "cmd_from_dict float_array d c =
     (case map_of d ''x'' of
        None \<Rightarrow> Inl (KeyError, c)
      | Some vx \<Rightarrow>
          (case map_of d ''y'' of
             None \<Rightarrow> Inl (KeyError, c)
           | Some vy \<Rightarrow>
               (case map_of d ''direction'' of
                  None \<Rightarrow> Inl (KeyError, c)
                | Some dir \<Rightarrow>
                    (let c1 = c\<lparr>sprite_robot :=
                                  set_direction dir (set_position (vx, vy) (sprite_robot c))\<rparr>
                     in case float_array of
                          Inl e \<Rightarrow> Inl (e, c1)
                        | Inr pos \<Rightarrow> Inr (c1\<lparr>robot := SimRobot pos ROBOT_SIZE\<rparr>)))))"

text \<open>
  \<^verbatim>\<open>RobotController.__init__\<close> of the package \<^verbatim>\<open>simulation\<close>.  The robot sprite
  starts outside the window, at \<open>(-2 * ROBOT_SIZE, -2 * ROBOT_SIZE)\<close>; the direction that
  the sprite's constructor gives it is the parameter \<open>dir\<close>.
\<close>

definition creator_shortcuts :: "'z robot_controller_scheme \<Rightarrow> 'z robot_controller_scheme" where
  "creator_shortcuts c =
     (if app_mode c = CREATOR then
        c\<lparr>text_robot :=
             Some \<lparr> text_position = (20, snd (get_window_size (window c)) - 130),
                    text_color = SHORTCUT_TEXT_COLOR \<rparr>,
           window :=
             on_callback CREATOR_PLACE_ROBOT Toggle (add_sprite ''text_robot'' TextRobot 0 (window c))\<rparr>
      else c)"

definition RobotController_init :: "window \<Rightarrow> app_mode \<Rightarrow> pyval \<Rightarrow> robot_controller" where
  "RobotController_init w mode dir =
     creator_shortcuts
       \<lparr> window = add_sprite ''sprite_robot'' SpriteRobot 0 w,
         app_mode = mode,
         dict_name = ''robot'',
         toggled = False,
         sprite_robot =
           \<lparr> sprite_x = PyNum (real_of_int (- ROBOT_SIZE * 2)),
             sprite_y = PyNum (real_of_int (- ROBOT_SIZE * 2)),
             sprite_direction = dir \<rparr>,
         text_robot = None \<rparr>"

text \<open>
  \<^verbatim>\<open>RobotController.__init__\<close> of the package \<^verbatim>\<open>commander\<close>: the simulated robot at
  the same start position (the integer \<open>-2 * ROBOT_SIZE\<close> is a float exactly), and in
  \<open>MANUAL\<close> mode the callbacks of the motor keys.
\<close>

definition manual_shortcuts :: "window \<Rightarrow> window" where
  "manual_shortcuts w =
     on_callback MANUAL_BOTH_INCREASE (MotorsBoth 1 1)
       (on_callback MANUAL_RIGHT_DECREASE (MotorRight (- 1))
         (on_callback MANUAL_RIGHT_INCREASE (MotorRight 1)
           (on_callback MANUAL_LEFT_DECREASE (MotorLeft (- 1))
             (on_callback MANUAL_LEFT_INCREASE (MotorLeft 1) w))))"

definition cmd_RobotController_init :: "window \<Rightarrow> app_mode \<Rightarrow> pyval \<Rightarrow> cmd_robot_controller" where
  "cmd_RobotController_init w mode dir =
     (let c = creator_shortcuts
                \<lparr> window = add_sprite ''sprite_robot'' SpriteRobot 0 w,
                  app_mode = mode,
                  dict_name = ''robot'',
                  toggled = False,
                  sprite_robot =
                    \<lparr> sprite_x = PyNum (real_of_int (- ROBOT_SIZE * 2)),
                      sprite_y = PyNum (real_of_int (- ROBOT_SIZE * 2)),
                      sprite_direction = dir \<rparr>,
                  text_robot = None,
                  robot = SimRobot (real_of_int (- ROBOT_SIZE * 2), real_of_int (- ROBOT_SIZE * 2))
                            ROBOT_SIZE \<rparr>
      in if mode = MANUAL then c\<lparr>window := manual_shortcuts (window c)\<rparr> else c)"

section \<open>The goal controller (commander/sub\_controller/goal\_controller.py)\<close>

text \<open>
  The goal controller has no sprite of its own yet; its shortcut text exists in
  \<open>CREATOR\<close> mode only.  \<^verbatim>\<open>to_dict\<close> returns the empty dictionary.
\<close>

record goal_controller =
  goal_window :: window
  goal_app_mode :: app_mode
  goal_dict_name :: string
  goal_toggled :: bool
  text_goal :: "text_sprite option"

definition GoalController_init :: "window \<Rightarrow> app_mode \<Rightarrow> goal_controller" where
  "GoalController_init w mode =
     (let g = \<lparr> goal_window = w, goal_app_mode = mode, goal_dict_name = ''goal'',
                goal_toggled = False, text_goal = None \<rparr>
      in if mode = CREATOR then
           g\<lparr>text_goal :=
               Some \<lparr> text_position = (20, snd (get_window_size w) - 70),
                      text_color = SHORTCUT_TEXT_COLOR \<rparr>,
             goal_window :=
               on_callback CREATOR_PLACE_GOAL Toggle (add_sprite ''text_goal'' TextGoal 0 w)\<rparr>
         else g)"

definition goal_to_dict :: "goal_controller \<Rightarrow> pydict" where
  "goal_to_dict g = []"

section \<open>Example states\<close>

text \<open>
  A window of 800 by 600 pixels, and the two robot controllers that \<^verbatim>\<open>__init__\<close>
  constructs on it in \<open>CREATOR\<close> mode.
\<close>

definition example_window :: window where
  "example_window = BaseWindow_init (800, 600) None 60 0"

definition example_controller :: robot_controller where
  "example_controller = RobotController_init example_window CREATOR (PyNum 0)"

definition example_cmd_controller :: cmd_robot_controller where
  "example_cmd_controller = cmd_RobotController_init example_window CREATOR (PyNum 0)"

text \<open>
  The controller after the robot was placed at \<open>(5, 7)\<close> with direction 90, and the
  controller in toggle mode.
\<close>

definition moved_controller :: robot_controller where
  "moved_controller =
     example_controller\<lparr>sprite_robot :=
       \<lparr> sprite_x = PyNum 5, sprite_y = PyNum 7, sprite_direction = PyNum 90 \<rparr>\<rparr>"

definition toggled_controller :: robot_controller where
  "toggled_controller = final_state (toggle True example_controller)"

text \<open>The goal controller that \<^verbatim>\<open>__init__\<close> constructs in \<open>CREATOR\<close> mode.\<close>

definition example_goal_controller :: goal_controller where
  "example_goal_controller = GoalController_init example_window CREATOR"

text \<open>A window with two sprites, and a window with two callbacks.\<close>

definition example_sprites :: window where
  "example_sprites =
     add_sprite ''front'' TextRobot 0 (add_sprite ''back'' SpriteRobot 5 example_window)"

definition example_callbacks :: window where
  "example_callbacks =
     on_callback QUIT Toggle (on_callback MOUSE_CLICK OnMouseClick example_window)"

section \<open>Invariants\<close>

text \<open>
  The window rebuilds its sorted sprite list from the sprite table after every change
  of the table, so between two method calls the list is the sorted table.
\<close>

definition sprite_list_inv :: "('f, 's) base_window \<Rightarrow> bool" where
  "sprite_list_inv w = (sprite_list w = sort_reverse fst (map snd (sprites w)))"

text \<open>A dictionary holds each key once: the callback table, and the sprite table.\<close>

definition sprites_inv :: "('f, 's) base_window \<Rightarrow> bool" where
  "sprites_inv w = distinct (map fst (sprites w))"

definition callbacks_inv :: "('f, 's) base_window \<Rightarrow> bool" where
  "callbacks_inv w = distinct (map fst (callbacks w))"

text \<open>
  What \<^verbatim>\<open>__init__\<close> and \<^verbatim>\<open>toggle\<close> establish for the robot controller: in \<open>CREATOR\<close>
  mode the shortcut text exists, and in toggle mode the mouse-click callback is
  registered.
\<close>

definition robot_controller_inv :: "'z robot_controller_scheme \<Rightarrow> bool" where
  "robot_controller_inv c =
     ((app_mode c = CREATOR \<longrightarrow> text_robot c \<noteq> None) \<and>
      (toggled c \<longrightarrow> map_of (callbacks (window c)) MOUSE_CLICK \<noteq> None))"

section \<open>The frame-rate setter\<close>

text \<open>
  C4: the setter of \<open>frame_rate\<close> raises \<open>ValueError\<close> exactly when the given rate is less
  than 1 or greater than 60; for every rate from 1 to 60 it raises nothing and the
  stored frame rate becomes that rate (nothing else in the window changes).
\<close>

theorem frame_rate_setter_range:
  "(frame_rate_setter rate w = Inl ValueError \<longleftrightarrow> rate < 1 \<or> 60 < rate) \<and>
   ((\<exists>e. frame_rate_setter rate w = Inl e) \<longleftrightarrow> rate < 1 \<or> 60 < rate) \<and>
   (1 \<le> rate \<and> rate \<le> 60 \<longrightarrow>
      frame_rate_setter rate w = Inr (w\<lparr>frame_rate := rate\<rparr>) \<and>
      (\<forall>w'. frame_rate_setter rate w = Inr w' \<longrightarrow> frame_rate w' = rate))"
  by (auto simp: frame_rate_setter_def)

theorem frame_rate_setter_range_witness:
  "frame_rate_setter 30 example_window = Inr (example_window\<lparr>frame_rate := 30\<rparr>) \<and>
   frame_rate_setter 61 example_window = Inl ValueError \<and>
   frame_rate_setter 0 example_window = Inl ValueError"
  using frame_rate_setter_range [of 30 example_window]
    frame_rate_setter_range [of 61 example_window]
    frame_rate_setter_range [of 0 example_window]
  by simp

section \<open>Dictionaries as association lists\<close>

lemma length_update_registered:
  "map_of al k \<noteq> None \<Longrightarrow> length (AList.update k v al) = length al"
  by (induction al) auto

lemma length_update_new:
  "map_of al k = None \<Longrightarrow> length (AList.update k v al) = Suc (length al)"
  by (induction al) (auto split: if_splits)

lemma filter_key_absent: "k \<notin> fst ` set al \<Longrightarrow> filter (\<lambda>q. fst q = k) al = []"
  by (induction al) auto

lemma filter_other_absent: "k \<notin> fst ` set al \<Longrightarrow> filter (\<lambda>q. fst q \<noteq> k) al = al"
  by (induction al) auto

lemma filter_key_update:
  "distinct (map fst al) \<Longrightarrow> filter (\<lambda>p. fst p = k) (AList.update k v al) = [(k, v)]"
proof (induction al)
  case Nil
  then show ?case by simp
next
  case (Cons p al)
  have none: "filter (\<lambda>q. fst q = fst p) al = []" using Cons.prems
    by (simp add: filter_key_absent)
  show ?case
  proof (cases "fst p = k")
    case True
    with none show ?thesis by simp
  next
    case False
    with Cons show ?thesis by simp
  qed
qed

lemma filter_key_distinct:
  "distinct (map fst al) \<Longrightarrow> length (filter (\<lambda>p. fst p = k) al) \<le> 1"
proof (induction al)
  case Nil
  then show ?case by simp
next
  case (Cons p al)
  show ?case
  proof (cases "fst p = k")
    case True
    with Cons.prems have "filter (\<lambda>q. fst q = k) al = []"
      by (simp add: filter_key_absent)
    with True show ?thesis by simp
  next
    case False
    with Cons show ?thesis by simp
  qed
qed

lemma delete_eq_filter: "AList.delete k al = filter (\<lambda>p. fst p \<noteq> k) al"
  by (induction al) auto

lemma filter_other_update:
  "filter (\<lambda>p. fst p \<noteq> k) (AList.update k v al) = filter (\<lambda>p. fst p \<noteq> k) al"
  by (induction al) auto

lemma map_of_filter_key:
  "map_of (filter (\<lambda>p. fst p \<noteq> k) al) t = (if t = k then None else map_of al t)"
  by (induction al) auto

lemma length_filter_registered:
  "map_of al k \<noteq> None \<Longrightarrow> distinct (map fst al) \<Longrightarrow>
     Suc (length (filter (\<lambda>p. fst p \<noteq> k) al)) = length al"
proof (induction al)
  case Nil
  then show ?case by simp
next
  case (Cons p al)
  show ?case
  proof (cases "fst p = k")
    case True
    with Cons.prems have "filter (\<lambda>q. fst q \<noteq> k) al = al"
      by (simp add: filter_other_absent)
    with True show ?thesis by simp
  next
    case False
    with Cons show ?thesis by simp
  qed
qed

section \<open>The sprite list\<close>

lemma sort_reverse_sorted: "sorted_wrt (\<lambda>a b. key b \<le> key a) (sort_reverse key xs)"
proof -
  have "sorted (map key (sort_key key (rev xs)))"
    by (rule sorted_sort_key)
  then have "sorted_wrt (\<lambda>a b. key a \<le> key b) (sort_key key (rev xs))"
    by (simp add: sorted_wrt_map)
  then show ?thesis
    by (simp add: sort_reverse_def sorted_wrt_rev)
qed

lemma mset_sort_reverse: "mset (sort_reverse key xs) = mset xs"
  by (simp add: sort_reverse_def)

lemma sort_reverse_stable:
  "filter (\<lambda>y. key y = k) (sort_reverse key xs) = filter (\<lambda>y. key y = k) xs"
  by (simp add: sort_reverse_def rev_filter [symmetric] sort_key_stable)

lemma sprites_add_sprite:
  "sprites (add_sprite name sprite zindex w) = AList.update name (zindex, sprite) (sprites w)"
  by (simp add: add_sprite_def update_sprite_list_def)

lemma sprites_remove_sprite:
  "sprites (remove_sprite name w) = AList.delete name (sprites w)"
  by (simp add: remove_sprite_def update_sprite_list_def)

text \<open>The invariant holds in a new window and after every method that changes the table.\<close>

lemma sprite_list_inv_update: "sprite_list_inv (update_sprite_list w)"
  by (simp add: sprite_list_inv_def update_sprite_list_def)

lemma sprite_list_inv_init: "sprite_list_inv (BaseWindow_init wsize area rate fl)"
  by (simp add: sprite_list_inv_def BaseWindow_init_def sort_reverse_def)

lemma sprite_list_inv_add_sprite: "sprite_list_inv (add_sprite name sprite zindex w)"
  by (simp add: add_sprite_def sprite_list_inv_update)

lemma sprite_list_inv_remove_sprite: "sprite_list_inv (remove_sprite name w)"
  by (simp add: remove_sprite_def sprite_list_inv_update)

lemma sprite_list_inv_sorted:
  "sprite_list_inv w \<Longrightarrow> sorted_wrt (\<lambda>a b. fst b \<le> fst a) (sprite_list w)"
  by (simp add: sprite_list_inv_def sort_reverse_sorted)

lemma sprite_list_inv_mset:
  "sprite_list_inv w \<Longrightarrow> mset (sprite_list w) = mset (map snd (sprites w))"
  by (simp add: sprite_list_inv_def mset_sort_reverse)

lemma sprite_list_inv_stable:
  "sprite_list_inv w \<Longrightarrow>
     filter (\<lambda>p. fst p = z) (sprite_list w) = filter (\<lambda>p. fst p = z) (map snd (sprites w))"
  by (simp add: sprite_list_inv_def sort_reverse_stable)

text \<open>
  The sprite table holds each name once, in a new window and after every method
  that changes the table.
\<close>

lemma sprites_inv_init: "sprites_inv (BaseWindow_init wsize area rate fl)"
  by (simp add: sprites_inv_def BaseWindow_init_def)

lemma sprites_inv_add_sprite: "sprites_inv w \<Longrightarrow> sprites_inv (add_sprite name sprite zindex w)"
  by (simp add: sprites_inv_def sprites_add_sprite distinct_update)

lemma sprites_inv_remove_sprite: "sprites_inv w \<Longrightarrow> sprites_inv (remove_sprite name w)"
  by (simp add: sprites_inv_def sprites_remove_sprite distinct_delete)

text \<open>
  The values of a table that holds each key once: one value for every key of the
  table, the one that the key is mapped to.
\<close>

lemma mset_values_keys:
  assumes "distinct (map fst al)"
  shows "mset (map snd al) = image_mset (\<lambda>k. the (map_of al k)) (mset (map fst al))"
  using assms
proof (induction al)
  case Nil
  then show ?case by simp
next
  case (Cons p al)
  have "image_mset (\<lambda>k. the (map_of (p # al) k)) (mset (map fst al)) =
        image_mset (\<lambda>k. the (map_of al k)) (mset (map fst al))"
  proof (rule image_mset_cong)
    fix k
    assume "k \<in># mset (map fst al)"
    with Cons.prems have "k \<noteq> fst p"
      by force
    then show "the (map_of (p # al) k) = the (map_of al k)"
      by (cases p) simp
  qed
  with Cons show ?case
    by (cases p) simp
qed

lemma mset_values_dom:
  assumes "distinct (map fst al)"
  shows "mset (map snd al) =
         image_mset (\<lambda>k. the (map_of al k)) (mset_set (dom (map_of al)))"
proof -
  from assms have "mset_set (set (map fst al)) = mset (map fst al)"
    by (rule mset_set_set)
  moreover have "dom (map_of al) = set (map fst al)"
    by (simp add: dom_map_of_conv_image_fst)
  ultimately show ?thesis
    using mset_values_keys [OF assms] by simp
qed

lemma sprite_list_registered:
  assumes "sprites_inv w" and "sprite_list_inv w"
  shows "mset (sprite_list w) =
         image_mset (\<lambda>n. the (map_of (sprites w) n)) (mset_set (dom (map_of (sprites w))))"
  using assms mset_values_dom [of "sprites w"]
  by (simp add: sprites_inv_def sprite_list_inv_mset)

text \<open>
  C8: the sprite table of a new window holds each name once, and \<open>add_sprite\<close> and
  \<open>remove_sprite\<close> keep it so.  After \<open>add_sprite\<close> the registered sprites are the old
  ones with the name set to the new entry, which the table holds once; after
  \<open>remove_sprite\<close> they are the old ones without the name.  After either, the sprite
  list holds exactly the registered sprites, one entry for every registered name,
  in the order of descending zindex, and the drawing step of the loop calls \<open>draw\<close> on
  the sprites of the list, in the order of the list.
\<close>

theorem sprites_drawn_in_zindex_order:
  "sprites_inv (BaseWindow_init wsize area rate fl :: ('f, 's) base_window) \<and>
   (sprites_inv w \<longrightarrow>
      sprites_inv (add_sprite name sprite zindex w) \<and>
      sprites_inv (remove_sprite name w) \<and>
      filter (\<lambda>p. fst p = name) (sprites (add_sprite name sprite zindex w)) =
        [(name, (zindex, sprite))] \<and>
      mset (sprite_list (add_sprite name sprite zindex w)) =
        image_mset (\<lambda>n. the (map_of (sprites (add_sprite name sprite zindex w)) n))
          (mset_set (dom (map_of (sprites (add_sprite name sprite zindex w))))) \<and>
      mset (sprite_list (remove_sprite name w)) =
        image_mset (\<lambda>n. the (map_of (sprites (remove_sprite name w)) n))
          (mset_set (dom (map_of (sprites (remove_sprite name w)))))) \<and>
   map_of (sprites (add_sprite name sprite zindex w)) =
     (map_of (sprites w))(name \<mapsto> (zindex, sprite)) \<and>
   mset (sprite_list (add_sprite name sprite zindex w)) =
     mset (map snd (sprites (add_sprite name sprite zindex w))) \<and>
   sorted_wrt (\<lambda>a b. fst b \<le> fst a) (sprite_list (add_sprite name sprite zindex w)) \<and>
   draw_sprites (add_sprite name sprite zindex w) =
     map snd (sprite_list (add_sprite name sprite zindex w)) \<and>
   map_of (sprites (remove_sprite name w)) = (map_of (sprites w))(name := None) \<and>
   mset (sprite_list (remove_sprite name w)) = mset (map snd (sprites (remove_sprite name w))) \<and>
   sorted_wrt (\<lambda>a b. fst b \<le> fst a) (sprite_list (remove_sprite name w)) \<and>
   draw_sprites (remove_sprite name w) = map snd (sprite_list (remove_sprite name w))"
proof (intro conjI impI)
  show "sprites_inv (BaseWindow_init wsize area rate fl :: ('f, 's) base_window)"
    by (rule sprites_inv_init)
next
  assume "sprites_inv w"
  then show "sprites_inv (add_sprite name sprite zindex w)"
    by (rule sprites_inv_add_sprite)
next
  assume "sprites_inv w"
  then show "sprites_inv (remove_sprite name w)"
    by (rule sprites_inv_remove_sprite)
next
  assume "sprites_inv w"
  then show "filter (\<lambda>p. fst p = name) (sprites (add_sprite name sprite zindex w)) =
        [(name, (zindex, sprite))]"
    by (simp add: sprites_inv_def sprites_add_sprite filter_key_update)
next
  assume "sprites_inv w"
  then have "sprites_inv (add_sprite name sprite zindex w)"
    by (rule sprites_inv_add_sprite)
  then show "mset (sprite_list (add_sprite name sprite zindex w)) =
        image_mset (\<lambda>n. the (map_of (sprites (add_sprite name sprite zindex w)) n))
          (mset_set (dom (map_of (sprites (add_sprite name sprite zindex w)))))"
    using sprite_list_inv_add_sprite by (rule sprite_list_registered)
next
  assume "sprites_inv w"
  then have "sprites_inv (remove_sprite name w)"
    by (rule sprites_inv_remove_sprite)
  then show "mset (sprite_list (remove_sprite name w)) =
        image_mset (\<lambda>n. the (map_of (sprites (remove_sprite name w)) n))
          (mset_set (dom (map_of (sprites (remove_sprite name w)))))"
    using sprite_list_inv_remove_sprite by (rule sprite_list_registered)
next
  show "map_of (sprites (add_sprite name sprite zindex w)) =
     (map_of (sprites w))(name \<mapsto> (zindex, sprite))"
    by (simp add: sprites_add_sprite update_conv')
next
  show "mset (sprite_list (add_sprite name sprite zindex w)) =
     mset (map snd (sprites (add_sprite name sprite zindex w)))"
    using sprite_list_inv_add_sprite by (rule sprite_list_inv_mset)
next
  show "sorted_wrt (\<lambda>a b. fst b \<le> fst a) (sprite_list (add_sprite name sprite zindex w))"
    using sprite_list_inv_add_sprite by (rule sprite_list_inv_sorted)
next
  show "draw_sprites (add_sprite name sprite zindex w) =
     map snd (sprite_list (add_sprite name sprite zindex w))"
    by (simp add: draw_sprites_def)
next
  show "map_of (sprites (remove_sprite name w)) = (map_of (sprites w))(name := None)"
    by (simp add: sprites_remove_sprite delete_conv')
next
  show "mset (sprite_list (remove_sprite name w)) = mset (map snd (sprites (remove_sprite name w)))"
    using sprite_list_inv_remove_sprite by (rule sprite_list_inv_mset)
next
  show "sorted_wrt (\<lambda>a b. fst b \<le> fst a) (sprite_list (remove_sprite name w))"
    using sprite_list_inv_remove_sprite by (rule sprite_list_inv_sorted)
next
  show "draw_sprites (remove_sprite name w) = map snd (sprite_list (remove_sprite name w))"
    by (simp add: draw_sprites_def)
qed

theorem sprites_drawn_in_zindex_order_witness:
  "sprites_inv example_sprites \<and>
   sprites_inv (add_sprite ''back'' TextGoal 3 example_sprites) \<and>
   sprites (add_sprite ''back'' TextGoal 3 example_sprites) =
     [(''back'', (3, TextGoal)), (''front'', (0, TextRobot))] \<and>
   sprite_list (add_sprite ''back'' TextGoal 3 example_sprites) = [(3, TextGoal), (0, TextRobot)] \<and>
   draw_sprites (add_sprite ''back'' TextGoal 3 example_sprites) = [TextGoal, TextRobot] \<and>
   sprite_list (add_sprite ''middle'' TextGoal 3 example_sprites) =
     [(5, SpriteRobot), (3, TextGoal), (0, TextRobot)] \<and>
   draw_sprites (add_sprite ''middle'' TextGoal 3 example_sprites) =
     [SpriteRobot, TextGoal, TextRobot] \<and>
   draw_sprites (remove_sprite ''back'' example_sprites) = [TextRobot]"
proof -
  have inv: "sprites_inv example_sprites"
    by (simp add: sprites_inv_def example_sprites_def example_window_def BaseWindow_init_def
        add_sprite_def update_sprite_list_def)
  note thm1 = sprites_drawn_in_zindex_order
    [of "(800, 600)" None 60 0 example_sprites "''back''" TextGoal 3]
  note thm2 = sprites_drawn_in_zindex_order
    [of "(800, 600)" None 60 0 example_sprites "''middle''" TextGoal 3]
  from thm1 inv have "sprites_inv (add_sprite ''back'' TextGoal 3 example_sprites)"
    by blast
  moreover from thm1 have "draw_sprites (add_sprite ''back'' TextGoal 3 example_sprites) =
      map snd (sprite_list (add_sprite ''back'' TextGoal 3 example_sprites))"
    and "draw_sprites (remove_sprite ''back'' example_sprites) =
      map snd (sprite_list (remove_sprite ''back'' example_sprites))"
    by blast+
  moreover from thm2 have "draw_sprites (add_sprite ''middle'' TextGoal 3 example_sprites) =
      map snd (sprite_list (add_sprite ''middle'' TextGoal 3 example_sprites))"
    by blast
  ultimately show ?thesis
    using inv
    by (simp add: example_sprites_def example_window_def BaseWindow_init_def add_sprite_def
        remove_sprite_def update_sprite_list_def sort_reverse_def)
qed

text \<open>
  C9: \<open>remove_sprite\<close> has no exception.  For a name that is not registered it leaves
  the sprite table as it is and only rebuilds the sprite list; in a window whose
  sprite list is the sorted table, as it is after \<open>__init__\<close>, \<open>add_sprite\<close> and
  \<open>remove_sprite\<close>, nothing changes at all.
\<close>

theorem remove_sprite_unregistered:
  assumes "name \<notin> fst ` set (sprites w)"
  shows "sprites (remove_sprite name w) = sprites w \<and>
         remove_sprite name w = update_sprite_list w \<and>
         (sprite_list_inv w \<longrightarrow> remove_sprite name w = w)"
  using assms by (simp add: remove_sprite_def update_sprite_list_def sprite_list_inv_def)

theorem remove_sprite_unregistered_witness:
  "''goal'' \<notin> fst ` set (sprites example_sprites) \<and> sprite_list_inv example_sprites \<and>
   remove_sprite ''goal'' example_sprites = example_sprites"
  using remove_sprite_unregistered [of "''goal''" example_sprites]
  by (simp add: example_sprites_def example_window_def BaseWindow_init_def add_sprite_def
      update_sprite_list_def sprite_list_inv_def sort_reverse_def)

section \<open>The callback table\<close>

lemma callbacks_on_callback:
  "callbacks (on_callback type func w) = AList.update type func (callbacks w)"
  by (simp add: on_callback_def)

lemma callbacks_inv_init: "callbacks_inv (BaseWindow_init wsize area rate fl)"
  by (simp add: callbacks_inv_def BaseWindow_init_def)

lemma callbacks_inv_on_callback:
  "callbacks_inv w \<Longrightarrow> callbacks_inv (on_callback type func w)"
  by (simp add: callbacks_inv_def on_callback_def distinct_update)

lemma callbacks_inv_remove_callback:
  "callbacks_inv w \<Longrightarrow> remove_callback type w = Inr w' \<Longrightarrow> callbacks_inv w'"
  by (auto simp: callbacks_inv_def remove_callback_def distinct_delete split: option.splits)

lemma event_calls_at_most_one: "length (snd (event type w)) \<le> 1"
  by (simp add: event_def split: option.splits)

lemma event_calls_registered:
  "func \<in> set (snd (event type w)) \<Longrightarrow> map_of (callbacks w) type = Some func"
  by (auto simp: event_def split: option.splits if_splits)

text \<open>
  C7: the callback table of a new window holds each event type at most once, and
  \<open>on_callback\<close> and \<open>remove_callback\<close> keep it so.  After \<open>on_callback\<close> the table has
  one entry for the type, with the new function; for a type that was registered the
  table does not grow.  \<open>event\<close> calls at most one callback, the one registered for the
  type of the event.
\<close>

theorem one_callback_per_event_type:
  "callbacks_inv (BaseWindow_init wsize area rate fl :: ('f, 's) base_window) \<and>
   (callbacks_inv w \<longrightarrow>
      length (filter (\<lambda>p. fst p = type) (callbacks w)) \<le> 1 \<and>
      callbacks_inv (on_callback type func w) \<and>
      filter (\<lambda>p. fst p = type) (callbacks (on_callback type func w)) = [(type, func)] \<and>
      (\<forall>w'. remove_callback type w = Inr w' \<longrightarrow> callbacks_inv w')) \<and>
   map_of (callbacks (on_callback type func w)) type = Some func \<and>
   (map_of (callbacks w) type \<noteq> None \<longrightarrow>
      length (callbacks (on_callback type func w)) = length (callbacks w)) \<and>
   length (snd (event type w)) \<le> 1 \<and>
   (\<forall>f \<in> set (snd (event type w)). map_of (callbacks w) type = Some f)"
proof (intro conjI impI allI ballI)
  show "callbacks_inv (BaseWindow_init wsize area rate fl :: ('f, 's) base_window)"
    by (rule callbacks_inv_init)
next
  assume "callbacks_inv w"
  then show "length (filter (\<lambda>p. fst p = type) (callbacks w)) \<le> 1"
    unfolding callbacks_inv_def by (rule filter_key_distinct)
next
  assume "callbacks_inv w"
  then show "callbacks_inv (on_callback type func w)"
    by (rule callbacks_inv_on_callback)
next
  assume "callbacks_inv w"
  then show "filter (\<lambda>p. fst p = type) (callbacks (on_callback type func w)) = [(type, func)]"
    by (simp add: callbacks_inv_def callbacks_on_callback filter_key_update)
next
  fix w'
  assume "callbacks_inv w" and "remove_callback type w = Inr w'"
  then show "callbacks_inv w'"
    by (rule callbacks_inv_remove_callback)
next
  show "map_of (callbacks (on_callback type func w)) type = Some func"
    by (simp add: callbacks_on_callback update_conv')
next
  assume "map_of (callbacks w) type \<noteq> None"
  then show "length (callbacks (on_callback type func w)) = length (callbacks w)"
    by (simp add: callbacks_on_callback length_update_registered)
next
  show "length (snd (event type w)) \<le> 1"
    by (rule event_calls_at_most_one)
next
  fix f
  assume "f \<in> set (snd (event type w))"
  then show "map_of (callbacks w) type = Some f"
    by (rule event_calls_registered)
qed

theorem one_callback_per_event_type_witness:
  "callbacks_inv example_callbacks \<and>
   map_of (callbacks example_callbacks) MOUSE_CLICK \<noteq> None \<and>
   callbacks (on_callback MOUSE_CLICK Toggle example_callbacks) = [(MOUSE_CLICK, Toggle), (QUIT, Toggle)] \<and>
   filter (\<lambda>p. fst p = MOUSE_CLICK) (callbacks (on_callback MOUSE_CLICK Toggle example_callbacks))
     = [(MOUSE_CLICK, Toggle)] \<and>
   length (callbacks (on_callback MOUSE_CLICK Toggle example_callbacks)) = length (callbacks example_callbacks) \<and>
   remove_callback MOUSE_CLICK example_callbacks = Inr (example_callbacks\<lparr>callbacks := [(QUIT, Toggle)]\<rparr>) \<and>
   callbacks_inv (example_callbacks\<lparr>callbacks := [(QUIT, Toggle)]\<rparr>) \<and>
   snd (event QUIT example_callbacks) = [Toggle]"
  using one_callback_per_event_type [of "(800, 600)" None 60 0 example_callbacks MOUSE_CLICK Toggle]
  by (simp add: example_callbacks_def example_window_def BaseWindow_init_def on_callback_def
      remove_callback_def callbacks_inv_def event_def)

text \<open>
  C10: \<open>remove_callback\<close> raises \<open>KeyError\<close> for a type that has no callback.  For a
  registered type it returns the window without the entries of that type: the type
  has no callback any more, every other type keeps its callback, and the table has
  one entry less.
\<close>

theorem remove_callback_spec:
  "(map_of (callbacks w) type = None \<longrightarrow> remove_callback type w = Inl KeyError) \<and>
   (map_of (callbacks w) type \<noteq> None \<longrightarrow>
      (\<exists>w'. remove_callback type w = Inr w' \<and>
            w' = w\<lparr>callbacks := filter (\<lambda>p. fst p \<noteq> type) (callbacks w)\<rparr> \<and>
            map_of (callbacks w') type = None \<and>
            (\<forall>t. t \<noteq> type \<longrightarrow> map_of (callbacks w') t = map_of (callbacks w) t) \<and>
            (callbacks_inv w \<longrightarrow> Suc (length (callbacks w')) = length (callbacks w))))"
proof (intro conjI impI)
  assume "map_of (callbacks w) type = None"
  then show "remove_callback type w = Inl KeyError"
    by (simp add: remove_callback_def)
next
  assume reg: "map_of (callbacks w) type \<noteq> None"
  let ?w' = "w\<lparr>callbacks := filter (\<lambda>p. fst p \<noteq> type) (callbacks w)\<rparr>"
  from reg have "remove_callback type w = Inr ?w'"
    by (cases "map_of (callbacks w) type") (simp_all add: remove_callback_def delete_eq_filter)
  moreover have "map_of (callbacks ?w') type = None"
    by (simp add: map_of_filter_key)
  moreover have "\<forall>t. t \<noteq> type \<longrightarrow> map_of (callbacks ?w') t = map_of (callbacks w) t"
    by (simp add: map_of_filter_key)
  moreover have "callbacks_inv w \<longrightarrow> Suc (length (callbacks ?w')) = length (callbacks w)"
  proof
    assume "callbacks_inv w"
    then have "distinct (map fst (callbacks w))"
      by (simp add: callbacks_inv_def)
    from length_filter_registered [OF reg this] show "Suc (length (callbacks ?w')) = length (callbacks w)"
      by simp
  qed
  ultimately show "\<exists>w'. remove_callback type w = Inr w' \<and>
            w' = w\<lparr>callbacks := filter (\<lambda>p. fst p \<noteq> type) (callbacks w)\<rparr> \<and>
            map_of (callbacks w') type = None \<and>
            (\<forall>t. t \<noteq> type \<longrightarrow> map_of (callbacks w') t = map_of (callbacks w) t) \<and>
            (callbacks_inv w \<longrightarrow> Suc (length (callbacks w')) = length (callbacks w))"
    by (intro exI [of _ ?w'] conjI) (rule refl | assumption)+
qed

theorem remove_callback_spec_witness:
  "map_of (callbacks example_callbacks) CREATOR_PLACE_GOAL = None \<and>
   remove_callback CREATOR_PLACE_GOAL example_callbacks = Inl KeyError \<and>
   map_of (callbacks example_callbacks) MOUSE_CLICK \<noteq> None \<and>
   callbacks_inv example_callbacks \<and>
   remove_callback MOUSE_CLICK example_callbacks = Inr (example_callbacks\<lparr>callbacks := [(QUIT, Toggle)]\<rparr>)"
  using remove_callback_spec [of example_callbacks CREATOR_PLACE_GOAL]
    remove_callback_spec [of example_callbacks MOUSE_CLICK]
  by (simp add: example_callbacks_def example_window_def BaseWindow_init_def on_callback_def
      callbacks_inv_def)

section \<open>Serialization of the robot controller\<close>

lemma to_dict_eq:
  "to_dict c =
     [(''robot'', PyDict [(''x'', sprite_x (sprite_robot c)), (''y'', sprite_y (sprite_robot c)),
                          (''direction'', sprite_direction (sprite_robot c))])]"
  by (simp add: to_dict_def get_position_def get_direction_def)

lemma set_sprite_fields:
  "set_direction (sprite_direction s) (set_position (sprite_x s, sprite_y s) s') = (s :: robot_sprite)"
  by (simp add: set_direction_def set_position_def)

lemma from_dict_record:
  "from_dict [(''x'', vx), (''y'', vy), (''direction'', dir)] c =
     Inr (c\<lparr>sprite_robot := set_direction dir (set_position (vx, vy) (sprite_robot c))\<rparr>)"
  by (simp add: from_dict_def)

lemma cmd_from_dict_record:
  "cmd_from_dict float_array [(''x'', vx), (''y'', vy), (''direction'', dir)] c =
     (case float_array of
        Inl e \<Rightarrow> Inl (e, c\<lparr>sprite_robot := set_direction dir (set_position (vx, vy) (sprite_robot c))\<rparr>)
      | Inr pos \<Rightarrow> Inr (c\<lparr>sprite_robot := set_direction dir (set_position (vx, vy) (sprite_robot c)),
                          robot := SimRobot pos ROBOT_SIZE\<rparr>))"
  by (simp add: cmd_from_dict_def split: sum.splits)

lemma sprite_robot_final_cmd_from_dict_record:
  "sprite_robot (final_state
       (cmd_from_dict float_array [(''x'', vx), (''y'', vy), (''direction'', dir)] c)) =
     set_direction dir (set_position (vx, vy) (sprite_robot c))"
  by (simp add: cmd_from_dict_record final_state_def split: sum.splits)

text \<open>
  C2, as stated: the entry for the key \<open>goal\<close>.  What \<open>to_dict\<close> of the goal controller
  returns is the empty dictionary: it has no key \<open>goal\<close>, and the result of \<open>to_dict\<close> of
  the robot controller has none either, so no document made of the keys of the two
  results maps \<open>goal\<close> to an empty record.
\<close>

theorem goal_to_dict_has_no_goal_key:
  "goal_to_dict example_goal_controller = [] \<and>
   map_of (goal_to_dict example_goal_controller) ''goal'' = None \<and>
   map_of (to_dict example_controller) ''goal'' = None \<and>
   map_of (to_dict example_cmd_controller) ''goal'' = None"
  by (simp add: goal_to_dict_def to_dict_eq)

text \<open>
  C2, amended: \<open>to_dict\<close> of the robot controller returns a dictionary whose only key
  is \<open>robot\<close>; its value is a dictionary whose keys are \<open>x\<close>, \<open>y\<close> and \<open>direction\<close>, which
  hold the position and the direction of the robot sprite.  \<open>to_dict\<close> of the goal
  controller returns the empty dictionary, which has no key at all.
\<close>

theorem to_dict_entries:
  "map fst (to_dict c) = [''robot''] \<and>
   (\<exists>r. map_of (to_dict c) ''robot'' = Some (PyDict r) \<and>
        map fst r = [''x'', ''y'', ''direction''] \<and>
        map_of r ''x'' = Some (fst (get_position (sprite_robot c))) \<and>
        map_of r ''y'' = Some (snd (get_position (sprite_robot c))) \<and>
        map_of r ''direction'' = Some (get_direction (sprite_robot c))) \<and>
   goal_to_dict g = [] \<and>
   map_of (goal_to_dict g) k = None"
  by (simp add: to_dict_def get_position_def get_direction_def goal_to_dict_def)

text \<open>
  C1, as stated: \<open>from_dict\<close> applied to the result of \<open>to_dict\<close>.  The result of
  \<open>to_dict\<close> has the one key \<open>robot\<close>, and \<open>from_dict\<close> starts with the subscript
  \<^verbatim>\<open>d["x"]\<close>: it raises \<open>KeyError\<close> and the receiving controller keeps the position it
  had, which is not the serialized one.
\<close>

theorem from_dict_of_to_dict_raises:
  "from_dict (to_dict moved_controller) example_controller = Inl (KeyError, example_controller) \<and>
   get_position (sprite_robot example_controller) \<noteq> get_position (sprite_robot moved_controller) \<and>
   from_dict (to_dict example_controller) example_controller = Inl (KeyError, example_controller) \<and>
   cmd_from_dict (Inr (5, 7)) (to_dict moved_controller) example_cmd_controller =
     Inl (KeyError, example_cmd_controller) \<and>
   cmd_from_dict (Inr (- 100, - 100)) (to_dict example_cmd_controller) example_cmd_controller =
     Inl (KeyError, example_cmd_controller)"
  by (simp add: to_dict_eq from_dict_def cmd_from_dict_def moved_controller_def get_position_def
      example_controller_def RobotController_init_def creator_shortcuts_def ROBOT_SIZE_def)

text \<open>
  C1, amended: for every robot controller, \<open>from_dict\<close> applied to the result of
  \<open>to_dict\<close> itself raises \<open>KeyError\<close>, in both packages.  The result of \<open>to_dict\<close> holds the
  robot record under the key \<open>robot\<close> (the controller's \<open>dict_name\<close>), and \<open>from_dict\<close>
  applied to that record gives the receiving controller's sprite the position and
  the direction of the serialized sprite and changes nothing else of the sprite.  In
  the package \<^verbatim>\<open>simulation\<close> it raises nothing.  In the package \<^verbatim>\<open>commander\<close> the
  sprite is set first; then the call raises what the conversion of the coordinates to
  a float array raises, if it raises, and otherwise makes the simulated robot from
  the converted position.
\<close>

theorem robot_record_roundtrip:
  "from_dict (to_dict c) c2 = Inl (KeyError, c2) \<and>
   cmd_from_dict float_array (to_dict c) c3 = Inl (KeyError, c3) \<and>
   (\<exists>r. map_of (to_dict c) ''robot'' = Some (PyDict r) \<and>
       (\<exists>s. s = set_direction (get_direction (sprite_robot c))
                   (set_position (get_position (sprite_robot c)) (sprite_robot c2)) \<and>
            get_position s = get_position (sprite_robot c) \<and>
            get_direction s = get_direction (sprite_robot c) \<and>
            from_dict r c2 = Inr (c2\<lparr>sprite_robot := s\<rparr>)) \<and>
       (\<exists>s. s = set_direction (get_direction (sprite_robot c))
                   (set_position (get_position (sprite_robot c)) (sprite_robot c3)) \<and>
            get_position s = get_position (sprite_robot c) \<and>
            get_direction s = get_direction (sprite_robot c) \<and>
            (\<forall>e. float_array = Inl e \<longrightarrow>
               cmd_from_dict float_array r c3 = Inl (e, c3\<lparr>sprite_robot := s\<rparr>)) \<and>
            (\<forall>pos. float_array = Inr pos \<longrightarrow>
               cmd_from_dict float_array r c3 =
                 Inr (c3\<lparr>sprite_robot := s, robot := SimRobot pos ROBOT_SIZE\<rparr>))))"
proof -
  let ?r = "[(''x'', sprite_x (sprite_robot c)), (''y'', sprite_y (sprite_robot c)),
             (''direction'', sprite_direction (sprite_robot c))]"
  have a: "from_dict (to_dict c) c2 = Inl (KeyError, c2)"
    by (simp add: to_dict_eq from_dict_def)
  have b: "cmd_from_dict float_array (to_dict c) c3 = Inl (KeyError, c3)"
    by (simp add: to_dict_eq cmd_from_dict_def)
  have 1: "map_of (to_dict c) ''robot'' = Some (PyDict ?r)"
    by (simp add: to_dict_eq)
  have g: "get_position (set_direction dir (set_position pos s)) = pos \<and>
           get_direction (set_direction dir (set_position pos s)) = dir" for dir pos s
    by (simp add: get_position_def get_direction_def set_position_def set_direction_def)
  have 2: "from_dict ?r c2 =
      Inr (c2\<lparr>sprite_robot := set_direction (get_direction (sprite_robot c))
                   (set_position (get_position (sprite_robot c)) (sprite_robot c2))\<rparr>)"
    by (simp add: from_dict_record get_position_def get_direction_def)
  have 3: "\<forall>e. float_array = Inl e \<longrightarrow>
      cmd_from_dict float_array ?r c3 =
        Inl (e, c3\<lparr>sprite_robot := set_direction (get_direction (sprite_robot c))
                   (set_position (get_position (sprite_robot c)) (sprite_robot c3))\<rparr>)"
    by (simp add: cmd_from_dict_record get_position_def get_direction_def)
  have 4: "\<forall>pos. float_array = Inr pos \<longrightarrow>
      cmd_from_dict float_array ?r c3 =
        Inr (c3\<lparr>sprite_robot := set_direction (get_direction (sprite_robot c))
                   (set_position (get_position (sprite_robot c)) (sprite_robot c3)),
                 robot := SimRobot pos ROBOT_SIZE\<rparr>)"
    by (simp add: cmd_from_dict_record get_position_def get_direction_def)
  show ?thesis
    using a b 1 2 3 4 g by (intro conjI exI [of _ ?r]) simp_all
qed

theorem robot_record_roundtrip_witness:
  "(\<exists>r. map_of (to_dict moved_controller) ''robot'' = Some (PyDict r) \<and>
       (\<exists>c'. from_dict r example_controller = Inr c' \<and>
             get_position (sprite_robot c') = (PyNum 5, PyNum 7) \<and>
             get_direction (sprite_robot c') = PyNum 90) \<and>
       (\<exists>c'. cmd_from_dict (Inr (5, 7)) r example_cmd_controller = Inr c' \<and>
             get_position (sprite_robot c') = (PyNum 5, PyNum 7) \<and>
             sim_position (robot c') = (5, 7))) \<and>
   (\<exists>r. map_of (to_dict moved_controller) ''robot'' = Some (PyDict r) \<and>
       (\<exists>c'. cmd_from_dict (Inl OverflowError) r example_cmd_controller = Inl (OverflowError, c') \<and>
             get_position (sprite_robot c') = (PyNum 5, PyNum 7)))"
proof -
  have p: "get_position (sprite_robot moved_controller) = (PyNum 5, PyNum 7)"
    and d: "get_direction (sprite_robot moved_controller) = PyNum 90"
    by (simp_all add: moved_controller_def get_position_def get_direction_def)
  from robot_record_roundtrip
    [of moved_controller example_controller "Inr (5, 7)" example_cmd_controller]
  have "\<exists>r. map_of (to_dict moved_controller) ''robot'' = Some (PyDict r) \<and>
       (\<exists>c'. from_dict r example_controller = Inr c' \<and>
             get_position (sprite_robot c') = (PyNum 5, PyNum 7) \<and>
             get_direction (sprite_robot c') = PyNum 90) \<and>
       (\<exists>c'. cmd_from_dict (Inr (5, 7)) r example_cmd_controller = Inr c' \<and>
             get_position (sprite_robot c') = (PyNum 5, PyNum 7) \<and>
             sim_position (robot c') = (5, 7))"
    unfolding p d by (auto simp: SimRobot_def)
  moreover
  from robot_record_roundtrip
    [of moved_controller example_controller "Inl OverflowError" example_cmd_controller]
  have "\<exists>r. map_of (to_dict moved_controller) ''robot'' = Some (PyDict r) \<and>
       (\<exists>c'. cmd_from_dict (Inl OverflowError) r example_cmd_controller = Inl (OverflowError, c') \<and>
             get_position (sprite_robot c') = (PyNum 5, PyNum 7))"
    unfolding p d by auto
  ultimately show ?thesis
    by (rule conjI)
qed

text \<open>
  C5: for a dictionary that lacks one of the keys \<open>x\<close>, \<open>y\<close> and \<open>direction\<close>,
  \<open>from_dict\<close> raises \<open>KeyError\<close> and the controller, with the position and the direction
  of its sprite, is what it was; this holds in both packages.
\<close>

theorem from_dict_missing_key:
  assumes "map_of d ''x'' = None \<or> map_of d ''y'' = None \<or> map_of d ''direction'' = None"
  shows "from_dict d c = Inl (KeyError, c) \<and> cmd_from_dict float_array d c' = Inl (KeyError, c')"
  using assms by (auto simp: from_dict_def cmd_from_dict_def split: option.splits)

theorem from_dict_missing_key_witness:
  "map_of [(''x'', PyNum 1), (''direction'', PyNum 0)] ''y'' = None \<and>
   from_dict [(''x'', PyNum 1), (''direction'', PyNum 0)] example_controller =
     Inl (KeyError, example_controller) \<and>
   cmd_from_dict (Inr (1, 0)) [(''x'', PyNum 1), (''direction'', PyNum 0)] example_cmd_controller =
     Inl (KeyError, example_cmd_controller)"
  using from_dict_missing_key
    [of "[(''x'', PyNum 1), (''direction'', PyNum 0)]" example_controller "Inr (1, 0)"
      example_cmd_controller]
  by simp

section \<open>Toggle mode\<close>

lemma toggled_base_toggle: "toggled (base_toggle call c) = (\<not> toggled c)"
  by (simp add: base_toggle_def)

lemma toggle_on:
  "\<not> toggled c \<Longrightarrow> text_robot c = Some t \<Longrightarrow>
     toggle call c =
       Inr (c\<lparr>toggled := True,
              window := on_callback MOUSE_CLICK OnMouseClick (window c),
              text_robot := Some (set_color SHORTCUT_TEXT_COLOR_ACTIVE t)\<rparr>)"
  by (simp add: toggle_def base_toggle_def text_robot_set_color_def Let_def)

lemma toggle_off:
  "toggled c \<Longrightarrow> text_robot c = Some t \<Longrightarrow> map_of (callbacks (window c)) MOUSE_CLICK = Some f \<Longrightarrow>
     toggle call c =
       Inr (c\<lparr>toggled := False,
              window := (window c)\<lparr>callbacks := AList.delete MOUSE_CLICK (callbacks (window c))\<rparr>,
              text_robot := Some (set_color SHORTCUT_TEXT_COLOR t)\<rparr>)"
  by (simp add: toggle_def base_toggle_def text_robot_set_color_def remove_callback_def Let_def)

lemma final_text_robot_set_color:
  "toggled (final_state (text_robot_set_color col c)) = toggled c \<and>
   sprite_robot (final_state (text_robot_set_color col c)) = sprite_robot c \<and>
   window (final_state (text_robot_set_color col c)) = window c"
  by (simp add: text_robot_set_color_def final_state_def split: option.splits)

lemma final_toggle:
  "toggled (final_state (toggle call c)) = (\<not> toggled c) \<and>
   sprite_robot (final_state (toggle call c)) = sprite_robot c"
proof (cases "toggled c")
  case True
  show ?thesis
  proof (cases "remove_callback MOUSE_CLICK (window c)")
    case (Inl e)
    with True show ?thesis
      by (simp add: toggle_def base_toggle_def Let_def final_state_def)
  next
    case (Inr w)
    with True show ?thesis
      by (simp add: toggle_def base_toggle_def Let_def final_text_robot_set_color)
  qed
next
  case False
  then show ?thesis
    by (simp add: toggle_def base_toggle_def Let_def final_text_robot_set_color)
qed

lemma robot_controller_inv_init:
  "robot_controller_inv (RobotController_init w mode dir)"
  by (simp add: robot_controller_inv_def RobotController_init_def creator_shortcuts_def)

lemma robot_controller_inv_cmd_init:
  "robot_controller_inv (cmd_RobotController_init w mode dir)"
  by (simp add: robot_controller_inv_def cmd_RobotController_init_def creator_shortcuts_def Let_def)

lemma robot_controller_inv_toggle:
  assumes "robot_controller_inv c" and "toggle call c = Inr c'"
  shows "robot_controller_inv c'"
  using assms
  by (auto simp: robot_controller_inv_def toggle_def base_toggle_def text_robot_set_color_def
      remove_callback_def on_callback_def update_conv' Let_def
      split: if_splits option.splits sum.splits)

lemma robot_controller_inv_from_dict:
  assumes "robot_controller_inv c" and "from_dict d c = Inr c'"
  shows "robot_controller_inv c'"
  using assms
  by (auto simp: robot_controller_inv_def from_dict_def split: option.splits)

lemma robot_controller_inv_on_mouse_click:
  assumes "robot_controller_inv c" and "on_mouse_click pos c = Inr c'"
  shows "robot_controller_inv c'"
proof -
  from assms(1) have "robot_controller_inv (c\<lparr>sprite_robot := set_position pos (sprite_robot c)\<rparr>)"
    by (simp add: robot_controller_inv_def)
  with assms(2) show ?thesis
    unfolding on_mouse_click_def by (rule robot_controller_inv_toggle [rotated])
qed

text \<open>
  C3: a robot controller in \<open>CREATOR\<close> mode, as \<^verbatim>\<open>__init__\<close> constructs it (with its
  shortcut text \<open>t\<close>), that is not toggled.  Two calls of \<open>toggle\<close> raise nothing.  The
  first one enters toggle mode: it sets the flag, registers the mouse-click handler
  for \<open>MOUSE_CLICK\<close> and gives the shortcut text the active colour.  After the second
  one the controller is the original one, but for the colour of the shortcut text,
  which is \<open>SHORTCUT_TEXT_COLOR\<close>, and the callback table, which has no entry for
  \<open>MOUSE_CLICK\<close> and is otherwise the original table: the flag is \<open>False\<close> again, and
  the text and every other callback are what they were.  If the text had the colour
  \<open>SHORTCUT_TEXT_COLOR\<close> and no \<open>MOUSE_CLICK\<close> callback was registered at the start,
  the two calls give back the original controller.
\<close>

theorem toggle_twice:
  assumes "app_mode c = CREATOR" and "\<not> toggled c" and "robot_controller_inv c"
  shows "\<exists>t c1 c2. text_robot c = Some t \<and>
           toggle call1 c = Inr c1 \<and> toggle call2 c1 = Inr c2 \<and>
           c1 = c\<lparr>toggled := True,
                  window := on_callback MOUSE_CLICK OnMouseClick (window c),
                  text_robot := Some (set_color SHORTCUT_TEXT_COLOR_ACTIVE t)\<rparr> \<and>
           toggled c1 \<and>
           map_of (callbacks (window c1)) MOUSE_CLICK = Some OnMouseClick \<and>
           text_robot c1 = Some (t\<lparr>text_color := SHORTCUT_TEXT_COLOR_ACTIVE\<rparr>) \<and>
           c2 = c\<lparr>window := (window c)\<lparr>callbacks :=
                               filter (\<lambda>p. fst p \<noteq> MOUSE_CLICK) (callbacks (window c))\<rparr>,
                  text_robot := Some (set_color SHORTCUT_TEXT_COLOR t)\<rparr> \<and>
           \<not> toggled c2 \<and>
           text_robot c2 = Some (t\<lparr>text_color := SHORTCUT_TEXT_COLOR\<rparr>) \<and>
           map_option text_color (text_robot c2) = Some SHORTCUT_TEXT_COLOR \<and>
           map_of (callbacks (window c2)) MOUSE_CLICK = None \<and>
           (\<forall>ty. ty \<noteq> MOUSE_CLICK \<longrightarrow>
              map_of (callbacks (window c2)) ty = map_of (callbacks (window c)) ty) \<and>
           sprite_robot c2 = sprite_robot c \<and> app_mode c2 = CREATOR \<and>
           robot_controller_inv c2 \<and>
           (text_color t = SHORTCUT_TEXT_COLOR \<and>
            map_of (callbacks (window c)) MOUSE_CLICK = None \<longrightarrow> c2 = c)"
proof -
  from assms obtain t where t: "text_robot c = Some t"
    by (auto simp: robot_controller_inv_def)
  let ?c1 = "c\<lparr>toggled := True,
              window := on_callback MOUSE_CLICK OnMouseClick (window c),
              text_robot := Some (set_color SHORTCUT_TEXT_COLOR_ACTIVE t)\<rparr>"
  let ?c2 = "c\<lparr>window := (window c)\<lparr>callbacks :=
                            filter (\<lambda>p. fst p \<noteq> MOUSE_CLICK) (callbacks (window c))\<rparr>,
              text_robot := Some (set_color SHORTCUT_TEXT_COLOR t)\<rparr>"
  have 1: "toggle call1 c = Inr ?c1"
    using assms(2) t by (rule toggle_on)
  have reg: "map_of (callbacks (window ?c1)) MOUSE_CLICK = Some OnMouseClick"
    by (simp add: on_callback_def update_conv')
  then have "toggle call2 ?c1 =
      Inr (?c1\<lparr>toggled := False,
              window := (window ?c1)\<lparr>callbacks := AList.delete MOUSE_CLICK (callbacks (window ?c1))\<rparr>,
              text_robot := Some (set_color SHORTCUT_TEXT_COLOR (set_color SHORTCUT_TEXT_COLOR_ACTIVE t))\<rparr>)"
    by (intro toggle_off) simp_all
  moreover have "?c1\<lparr>toggled := False,
              window := (window ?c1)\<lparr>callbacks := AList.delete MOUSE_CLICK (callbacks (window ?c1))\<rparr>,
              text_robot := Some (set_color SHORTCUT_TEXT_COLOR (set_color SHORTCUT_TEXT_COLOR_ACTIVE t))\<rparr>
           = ?c2"
    using assms(2)
    by (cases c) (simp add: on_callback_def delete_eq_filter filter_other_update set_color_def)
  ultimately have 2: "toggle call2 ?c1 = Inr ?c2"
    by simp
  have 3: "text_robot ?c1 = Some (t\<lparr>text_color := SHORTCUT_TEXT_COLOR_ACTIVE\<rparr>)"
    by (simp add: set_color_def)
  have 4: "text_robot ?c2 = Some (t\<lparr>text_color := SHORTCUT_TEXT_COLOR\<rparr>)"
    by (simp add: set_color_def)
  have 5: "map_of (callbacks (window ?c2)) MOUSE_CLICK = None"
    by (simp add: map_of_filter_key)
  have 6: "\<forall>ty. ty \<noteq> MOUSE_CLICK \<longrightarrow>
              map_of (callbacks (window ?c2)) ty = map_of (callbacks (window c)) ty"
    by (simp add: map_of_filter_key)
  have 7: "robot_controller_inv ?c2"
    using assms(2) by (simp add: robot_controller_inv_def)
  have 8: "?c2 = c"
    if col: "text_color t = SHORTCUT_TEXT_COLOR"
      and none: "map_of (callbacks (window c)) MOUSE_CLICK = None"
  proof -
    from none have "MOUSE_CLICK \<notin> fst ` set (callbacks (window c))"
      by (simp add: map_of_eq_None_iff)
    then have "filter (\<lambda>p. fst p \<noteq> MOUSE_CLICK) (callbacks (window c)) = callbacks (window c)"
      by (rule filter_other_absent)
    moreover from col have "set_color SHORTCUT_TEXT_COLOR t = t"
      by (simp add: set_color_def)
    ultimately show ?thesis
      using t by (cases c) simp
  qed
  have 9: "toggled ?c1" "\<not> toggled ?c2" "sprite_robot ?c2 = sprite_robot c"
    "app_mode ?c2 = CREATOR"
    "map_option text_color (text_robot ?c2) = Some SHORTCUT_TEXT_COLOR"
    using assms(1,2) by (simp_all add: set_color_def)
  have 10: "text_color t = SHORTCUT_TEXT_COLOR \<and>
            map_of (callbacks (window c)) MOUSE_CLICK = None \<longrightarrow> ?c2 = c"
    using 8 by (intro impI) (elim conjE)
  show ?thesis
    by (intro exI [of _ t] exI [of _ ?c1] exI [of _ ?c2] conjI)
      (rule t 1 2 refl reg 3 4 5 6 7 9 10)+
qed

theorem toggle_twice_witness:
  "app_mode example_controller = CREATOR \<and> \<not> toggled example_controller \<and>
   robot_controller_inv example_controller \<and>
   (\<exists>c1. toggle True example_controller = Inr c1 \<and> toggled c1 \<and>
         map_of (callbacks (window c1)) MOUSE_CLICK = Some OnMouseClick \<and>
         map_option text_color (text_robot c1) = Some SHORTCUT_TEXT_COLOR_ACTIVE \<and>
         toggle True c1 = Inr example_controller)"
proof -
  have a: "app_mode example_controller = CREATOR"
    by (simp add: example_controller_def RobotController_init_def creator_shortcuts_def)
  have b: "\<not> toggled example_controller"
    by (simp add: example_controller_def RobotController_init_def creator_shortcuts_def)
  have c: "robot_controller_inv example_controller"
    by (simp add: example_controller_def robot_controller_inv_init)
  have t: "text_robot example_controller =
      Some \<lparr> text_position = (20, 470), text_color = SHORTCUT_TEXT_COLOR \<rparr>"
    by (simp add: example_controller_def RobotController_init_def creator_shortcuts_def
        get_window_size_def add_sprite_def update_sprite_list_def example_window_def
        BaseWindow_init_def)
  have n: "map_of (callbacks (window example_controller)) MOUSE_CLICK = None"
    by (simp add: example_controller_def RobotController_init_def creator_shortcuts_def
        on_callback_def add_sprite_def update_sprite_list_def example_window_def
        BaseWindow_init_def)
  from toggle_twice [OF a b c, of True True] obtain u c1 c2 where
    u: "text_robot example_controller = Some u"
    and s1: "toggle True example_controller = Inr c1"
    and s2: "toggle True c1 = Inr c2"
    and f1: "toggled c1" "map_of (callbacks (window c1)) MOUSE_CLICK = Some OnMouseClick"
      "text_robot c1 = Some (u\<lparr>text_color := SHORTCUT_TEXT_COLOR_ACTIVE\<rparr>)"
    and same: "text_color u = SHORTCUT_TEXT_COLOR \<and>
         map_of (callbacks (window example_controller)) MOUSE_CLICK = None \<longrightarrow>
         c2 = example_controller"
    by (elim exE conjE)
  from u t have "u = \<lparr> text_position = (20, 470), text_color = SHORTCUT_TEXT_COLOR \<rparr>"
    by simp
  then have "text_color u = SHORTCUT_TEXT_COLOR"
    by simp
  with same n have "c2 = example_controller"
    by simp
  with s1 s2 f1 a b c show ?thesis
    by simp
qed

text \<open>
  C6: for a toggled robot controller and a click position \<open>pos\<close>, when
  \<open>_on_mouse_click(pos)\<close> is over, the position of the sprite is \<open>pos\<close>, \<open>to_dict\<close>
  reports \<open>pos\<close> as \<open>x\<close> and \<open>y\<close>, and the controller is not toggled.  For a controller in
  \<open>CREATOR\<close> mode that \<^verbatim>\<open>__init__\<close> and \<open>toggle\<close> brought into toggle mode the call
  raises nothing, the shortcut text has its inactive colour and the mouse-click
  callback is removed.
\<close>

theorem on_mouse_click_commits:
  assumes "toggled c"
  shows "get_position (sprite_robot (final_state (on_mouse_click pos c))) = pos \<and>
         to_dict (final_state (on_mouse_click pos c)) =
           [(''robot'', PyDict [(''x'', fst pos), (''y'', snd pos),
                                (''direction'', get_direction (sprite_robot c))])] \<and>
         \<not> toggled (final_state (on_mouse_click pos c)) \<and>
         (app_mode c = CREATOR \<and> robot_controller_inv c \<longrightarrow>
            (\<exists>c'. on_mouse_click pos c = Inr c' \<and>
                  map_of (callbacks (window c')) MOUSE_CLICK = None \<and>
                  map_option text_color (text_robot c') = Some SHORTCUT_TEXT_COLOR))"
proof -
  let ?c0 = "c\<lparr>sprite_robot := set_position pos (sprite_robot c)\<rparr>"
  have fin: "toggled (final_state (toggle True ?c0)) = (\<not> toggled ?c0) \<and>
             sprite_robot (final_state (toggle True ?c0)) = sprite_robot ?c0"
    by (rule final_toggle)
  have 1: "get_position (sprite_robot (final_state (on_mouse_click pos c))) = pos"
    using fin by (simp add: on_mouse_click_def get_position_def set_position_def)
  have 2: "to_dict (final_state (on_mouse_click pos c)) =
           [(''robot'', PyDict [(''x'', fst pos), (''y'', snd pos),
                                (''direction'', get_direction (sprite_robot c))])]"
    using fin by (simp add: on_mouse_click_def to_dict_eq get_direction_def set_position_def)
  have 3: "\<not> toggled (final_state (on_mouse_click pos c))"
    using fin assms by (simp add: on_mouse_click_def)
  have 4: "\<exists>c'. on_mouse_click pos c = Inr c' \<and>
                  map_of (callbacks (window c')) MOUSE_CLICK = None \<and>
                  map_option text_color (text_robot c') = Some SHORTCUT_TEXT_COLOR"
    if mode: "app_mode c = CREATOR" and inv: "robot_controller_inv c"
  proof -
    from mode inv obtain t where t: "text_robot c = Some t"
      by (auto simp: robot_controller_inv_def)
    from assms inv obtain f where f: "map_of (callbacks (window c)) MOUSE_CLICK = Some f"
      by (auto simp: robot_controller_inv_def)
    have "toggle True ?c0 =
       Inr (?c0\<lparr>toggled := False,
              window := (window ?c0)\<lparr>callbacks := AList.delete MOUSE_CLICK (callbacks (window ?c0))\<rparr>,
              text_robot := Some (set_color SHORTCUT_TEXT_COLOR t)\<rparr>)"
      using assms t f by (intro toggle_off) simp_all
    then show ?thesis
      by (simp add: on_mouse_click_def delete_conv' set_color_def)
  qed
  from 1 2 3 4 show ?thesis
    by blast
qed

theorem on_mouse_click_commits_witness:
  "toggled toggled_controller \<and> app_mode toggled_controller = CREATOR \<and>
   robot_controller_inv toggled_controller \<and>
   (\<exists>c'. on_mouse_click (PyNum 5, PyNum 7) toggled_controller = Inr c' \<and>
         get_position (sprite_robot c') = (PyNum 5, PyNum 7) \<and>
         to_dict c' = [(''robot'', PyDict [(''x'', PyNum 5), (''y'', PyNum 7), (''direction'', PyNum 0)])] \<and>
         \<not> toggled c')"
proof -
  have eq: "toggle True example_controller =
       Inr (example_controller\<lparr>toggled := True,
              window := on_callback MOUSE_CLICK OnMouseClick (window example_controller),
              text_robot := Some (set_color SHORTCUT_TEXT_COLOR_ACTIVE
                 \<lparr> text_position = (20, 470), text_color = SHORTCUT_TEXT_COLOR \<rparr>)\<rparr>)"
    by (rule toggle_on)
      (simp_all add: example_controller_def RobotController_init_def creator_shortcuts_def
        get_window_size_def add_sprite_def update_sprite_list_def example_window_def
        BaseWindow_init_def)
  then have tc: "toggled_controller =
       example_controller\<lparr>toggled := True,
              window := on_callback MOUSE_CLICK OnMouseClick (window example_controller),
              text_robot := Some (set_color SHORTCUT_TEXT_COLOR_ACTIVE
                 \<lparr> text_position = (20, 470), text_color = SHORTCUT_TEXT_COLOR \<rparr>)\<rparr>"
    by (simp add: toggled_controller_def final_state_def)
  have a: "toggled toggled_controller"
    by (simp add: tc)
  have b: "app_mode toggled_controller = CREATOR"
    by (simp add: tc example_controller_def RobotController_init_def creator_shortcuts_def)
  have c: "robot_controller_inv toggled_controller"
    by (simp add: tc robot_controller_inv_def on_callback_def update_conv')
  have d: "get_direction (sprite_robot toggled_controller) = PyNum 0"
    by (simp add: tc example_controller_def RobotController_init_def creator_shortcuts_def
        get_direction_def)
  from on_mouse_click_commits [OF a, of "(PyNum 5, PyNum 7)"] a b c d show ?thesis
    by (auto simp: final_state_def)
qed

end
